theory Spec2Isabelle
  imports Complex_Main "HOL-Library.Log_Nat"
begin

section \<open>The fitness tracker module \<open>homework.py\<close>\<close>

text \<open>
  The module computes distance, mean speed and spent calories of a workout from sensor
  readings, for three kinds of workout, and renders a one-line report.

  Numbers. A Python number is modelled by the rational it denotes (\<^typ>\<open>rat\<close>): an
  \<open>int\<close> by itself, a \<open>float\<close> by the exact value of the binary64 number. An
  arithmetic operation with a \<open>float\<close> operand or result is the exact operation followed
  by \<open>binary64\<close>, the rounding to the nearest binary64 value with ties to even. The two
  products that Python computes on \<open>int\<close> when both attributes are \<open>int\<close>
  (\<open>length_pool * count_pool\<close> and \<open>duration * MIN_IN_HOUR\<close>) are rounded in the same
  way, which leaves an \<open>int\<close> below \<open>2 ^ 53\<close> as it is. Outside the model: results
  of magnitude \<open>2 ^ 1024\<close> and more (Python gives \<open>inf\<close> or raises
  \<open>OverflowError\<close>), infinities, NaN and the sign of zero. Division by zero, which
  Python raises as \<open>ZeroDivisionError\<close> for \<open>/\<close> and \<open>//\<close> on both \<open>int\<close> and
  \<open>float\<close>, is a branch of the model.

  Strings. A Python \<open>str\<close> is a sequence of Unicode code points, so it is modelled as a
  list of natural numbers; \<open>ascii\<close> embeds an ASCII literal.

  Exceptions are values of the type \<open>error\<close>; a computation that may raise returns
  \<open>error + 'a\<close>, with \<open>Inl\<close> for the exception.
\<close>

subsection \<open>Strings and errors\<close>

type_synonym str = "nat list"

definition ascii :: "string \<Rightarrow> str" where
  "ascii s = map of_char s"

datatype error =
    ZeroDivisionError
  | NotImplementedError
  | TypeError
  | KeyError
  | ValueError str

subsection \<open>Binary64 arithmetic\<close>

text \<open>Rounding to the nearest integer, a tie going to the even neighbour.\<close>

definition round_half_even :: "rat \<Rightarrow> int" where
  "round_half_even x =
     (let f = \<lfloor>x\<rfloor>; r = x - of_int f
      in if r < 1 / 2 then f
         else if 1 / 2 < r then f + 1
         else if even f then f else f + 1)"

text \<open>The binary exponent of a positive number: \<open>2 ^ ilog2 x \<le> x < 2 ^ (ilog2 x + 1)\<close>.\<close>

definition ilog2 :: "rat \<Rightarrow> int" where
  "ilog2 x = (if 1 \<le> x then bitlen \<lfloor>x\<rfloor> - 1 else - bitlen (\<lceil>1 / x\<rceil> - 1))"

text \<open>
  The binary64 value nearest to \<open>x\<close>: a multiple of \<open>2 ^ e\<close> with a significand of 53
  bits, where \<open>e\<close> is not below the exponent \<open>- 1074\<close> of the subnormal numbers.
\<close>

definition binary64 :: "rat \<Rightarrow> rat" where
  "binary64 x =
     (if x = 0 then 0
      else let e = max (ilog2 \<bar>x\<bar> - 52) (- 1074)
           in of_int (round_half_even (x / 2 powi e)) * 2 powi e)"

text \<open>\<open>x + y\<close>, \<open>x - y\<close>, \<open>x * y\<close> of Python with a \<open>float\<close> result.\<close>

definition float_add :: "rat \<Rightarrow> rat \<Rightarrow> rat" where
  "float_add x y = binary64 (x + y)"

definition float_sub :: "rat \<Rightarrow> rat \<Rightarrow> rat" where
  "float_sub x y = binary64 (x - y)"

definition float_mul :: "rat \<Rightarrow> rat \<Rightarrow> rat" where
  "float_mul x y = binary64 (x * y)"

text \<open>
  \<open>x ** n\<close> for a \<open>float\<close> \<open>x\<close> and a small \<open>int\<close> \<open>n\<close>. Python calls the
  \<open>pow\<close> of the C library; the model takes the power correctly rounded.
\<close>

definition float_pow :: "rat \<Rightarrow> nat \<Rightarrow> rat" where
  "float_pow x n = binary64 (x ^ n)"

text \<open>\<open>x / y\<close> of Python: true division, with a divisor that is not zero.\<close>

definition float_div :: "rat \<Rightarrow> rat \<Rightarrow> rat" where
  "float_div x y = binary64 (x / y)"

text \<open>\<open>x / y\<close> of Python with any divisor.\<close>

definition truediv :: "rat \<Rightarrow> rat \<Rightarrow> error + rat" where
  "truediv x y = (if y = 0 then Inl ZeroDivisionError else Inr (float_div x y))"

text \<open>
  \<open>x // y\<close> of Python: floor division. On \<open>float\<close> operands it is the floor of the
  exact quotient of the two values (not of their rounded quotient), as a \<open>float\<close>.
\<close>

definition floordiv :: "rat \<Rightarrow> rat \<Rightarrow> error + rat" where
  "floordiv x y =
     (if y = 0 then Inl ZeroDivisionError else Inr (binary64 (of_int \<lfloor>x / y\<rfloor>)))"

subsection \<open>Formatting with \<open>.3f\<close>\<close>

text \<open>
  \<open>format(x, '.3f')\<close> prints the decimal expansion of the exact value of \<open>x\<close> rounded to
  three places, a tie going to the even neighbour, and a minus sign for every negative
  \<open>x\<close> (also when the digits are all zero).
\<close>

fun str_nat :: "nat \<Rightarrow> str" where
  "str_nat n = (if n < 10 then [48 + n] else str_nat (n div 10) @ [48 + n mod 10])"

declare str_nat.simps [simp del]

definition format_3f :: "rat \<Rightarrow> str" where
  "format_3f x =
     (let n = nat (round_half_even (\<bar>x\<bar> * 1000));
          frac = str_nat (n mod 1000)
      in (if x < 0 then [45] else []) @ str_nat (n div 1000) @ [46]
         @ replicate (3 - length frac) 48 @ frac)"

subsection \<open>\<open>InfoMessage\<close>\<close>

text \<open>
  The dataclass \<open>InfoMessage\<close>. Its numeric fields carry the prefix \<open>info_\<close> here,
  since \<open>duration\<close> is also an attribute of a training.
\<close>

record InfoMessage =
  training_type :: str
  info_duration :: rat
  info_distance :: rat
  info_speed :: rat
  info_calories :: rat

text \<open>
  The class attribute \<open>MESSAGE\<close> is a format string: literal text and replacement
  fields, \<open>{training_type}\<close> inserted as it is and the four others with \<open>:.3f\<close>.
\<close>

datatype piece =
    Text str
  | Field_str "InfoMessage \<Rightarrow> str"
  | Field_3f "InfoMessage \<Rightarrow> rat"

definition MESSAGE :: "piece list" where
  "MESSAGE =
     [Text [1058, 1080, 1087, 32, 1090, 1088, 1077, 1085, 1080, 1088, 1086, 1074, 1082,
            1080, 58, 32],
      Field_str training_type,
      Text [59, 32, 1044, 1083, 1080, 1090, 1077, 1083, 1100, 1085, 1086, 1089, 1090,
            1100, 58, 32],
      Field_3f info_duration,
      Text [32, 1095, 46, 59, 32, 1044, 1080, 1089, 1090, 1072, 1085, 1094, 1080, 1103,
            58, 32],
      Field_3f info_distance,
      Text [32, 1082, 1084, 59, 32, 1057, 1088, 46, 32, 1089, 1082, 1086, 1088, 1086,
            1089, 1090, 1100, 58, 32],
      Field_3f info_speed,
      Text [32, 1082, 1084, 47, 1095, 59, 32, 1055, 1086, 1090, 1088, 1072, 1095, 1077,
            1085, 1086, 32, 1082, 1082, 1072, 1083, 58, 32],
      Field_3f info_calories,
      Text [46]]"

fun format_piece :: "InfoMessage \<Rightarrow> piece \<Rightarrow> str" where
  "format_piece m (Text s) = s"
| "format_piece m (Field_str f) = f m"
| "format_piece m (Field_3f f) = format_3f (f m)"

definition get_message :: "InfoMessage \<Rightarrow> str" where
  "get_message self = concat (map (format_piece self) MESSAGE)"

subsection \<open>\<open>Training\<close> and its subclasses\<close>

text \<open>
  An object of the class hierarchy: the constructor is the object's class, the arguments
  are the attributes that \<open>__init__\<close> stores. The base class can be instantiated, so it
  is a constructor too.
\<close>

datatype training =
    Training (action: rat) (duration: rat) (weight: rat)
  | Running (action: rat) (duration: rat) (weight: rat)
  | SportsWalking (action: rat) (duration: rat) (weight: rat) (height: rat)
  | Swimming (action: rat) (duration: rat) (weight: rat) (length_pool: rat) (count_pool: rat)

text \<open>\<open>self.__class__.__name__\<close>\<close>

fun class_name :: "training \<Rightarrow> str" where
  "class_name (Training _ _ _) = ascii ''Training''"
| "class_name (Running _ _ _) = ascii ''Running''"
| "class_name (SportsWalking _ _ _ _) = ascii ''SportsWalking''"
| "class_name (Swimming _ _ _ _ _) = ascii ''Swimming''"

text \<open>
  Class attributes; \<open>Swimming\<close> overrides \<open>LEN_STEP\<close>. A \<open>float\<close> literal is the
  binary64 value nearest to the decimal written.
\<close>

fun LEN_STEP :: "training \<Rightarrow> rat" where
  "LEN_STEP (Swimming _ _ _ _ _) = binary64 1.38"
| "LEN_STEP _ = binary64 0.65"

definition M_IN_KM :: rat where "M_IN_KM = 1000"
definition MIN_IN_HOUR :: rat where "MIN_IN_HOUR = 60"
definition MET_COEFF_RUN_1 :: rat where "MET_COEFF_RUN_1 = 18"
definition MET_COEFF_RUN_2 :: rat where "MET_COEFF_RUN_2 = 20"
definition MET_COEFF_WLK_1 :: rat where "MET_COEFF_WLK_1 = binary64 0.035"
definition MET_COEFF_WLK_2 :: rat where "MET_COEFF_WLK_2 = binary64 0.029"
definition MET_COEFF_SWM_1 :: rat where "MET_COEFF_SWM_1 = binary64 1.1"
definition MET_COEFF_SWM_2 :: rat where "MET_COEFF_SWM_2 = 2"

text \<open>
  \<open>Training.get_distance\<close>, inherited by every subclass. The divisor is the constant
  \<open>M_IN_KM\<close>, so this division cannot raise.
\<close>

definition get_distance :: "training \<Rightarrow> rat" where
  "get_distance self = float_div (float_mul (action self) (LEN_STEP self)) M_IN_KM"

definition Training_get_mean_speed :: "training \<Rightarrow> error + rat" where
  "Training_get_mean_speed self = truediv (get_distance self) (duration self)"

definition Swimming_get_mean_speed :: "training \<Rightarrow> error + rat" where
  "Swimming_get_mean_speed self =
     (let distance_meters = float_mul (length_pool self) (count_pool self);
          distance_km = float_div distance_meters M_IN_KM
      in truediv distance_km (duration self))"

text \<open>The call \<open>self.get_mean_speed()\<close>: the method of the object's class.\<close>

fun get_mean_speed :: "training \<Rightarrow> error + rat" where
  "get_mean_speed (Swimming a d w l c) = Swimming_get_mean_speed (Swimming a d w l c)"
| "get_mean_speed self = Training_get_mean_speed self"

declare get_mean_speed.simps [simp del]

definition Training_get_spent_calories :: "training \<Rightarrow> error + rat" where
  "Training_get_spent_calories self = Inl NotImplementedError"

definition Running_get_spent_calories :: "training \<Rightarrow> error + rat" where
  "Running_get_spent_calories self =
     (case get_mean_speed self of
        Inl e \<Rightarrow> Inl e
      | Inr mean_speed \<Rightarrow>
          (let pace = float_mul
                        (float_sub (float_mul MET_COEFF_RUN_1 mean_speed) MET_COEFF_RUN_2)
                        (weight self);
               pace_in_km = float_div pace M_IN_KM;
               pace_in_min = float_mul (duration self) MIN_IN_HOUR;
               calories = float_mul pace_in_km pace_in_min
           in Inr calories))"

definition SportsWalking_get_spent_calories :: "training \<Rightarrow> error + rat" where
  "SportsWalking_get_spent_calories self =
     (case get_mean_speed self of
        Inl e \<Rightarrow> Inl e
      | Inr mean_speed \<Rightarrow>
          (case floordiv (float_pow mean_speed 2) (height self) of
             Inl e \<Rightarrow> Inl e
           | Inr q \<Rightarrow>
               (let pace = float_add
                             (float_mul MET_COEFF_WLK_1 (weight self))
                             (float_mul (float_mul q MET_COEFF_WLK_2) (weight self));
                    pace_in_min = float_mul (duration self) MIN_IN_HOUR;
                    calories = float_mul pace pace_in_min
                in Inr calories)))"

definition Swimming_get_spent_calories :: "training \<Rightarrow> error + rat" where
  "Swimming_get_spent_calories self =
     (case get_mean_speed self of
        Inl e \<Rightarrow> Inl e
      | Inr mean_speed \<Rightarrow>
          (let calories = float_mul
                            (float_mul (float_add mean_speed MET_COEFF_SWM_1)
                               MET_COEFF_SWM_2)
                            (weight self)
           in Inr calories))"

text \<open>The call \<open>self.get_spent_calories()\<close>.\<close>

fun get_spent_calories :: "training \<Rightarrow> error + rat" where
  "get_spent_calories (Training a d w) = Training_get_spent_calories (Training a d w)"
| "get_spent_calories (Running a d w) = Running_get_spent_calories (Running a d w)"
| "get_spent_calories (SportsWalking a d w h) =
     SportsWalking_get_spent_calories (SportsWalking a d w h)"
| "get_spent_calories (Swimming a d w l c) =
     Swimming_get_spent_calories (Swimming a d w l c)"

declare get_spent_calories.simps [simp del]

text \<open>
  \<open>Training.show_training_info\<close>: the keyword arguments are evaluated in the order they
  are written, so the first exception raised is the one of \<open>get_mean_speed\<close>.
\<close>

definition show_training_info :: "training \<Rightarrow> error + InfoMessage" where
  "show_training_info self =
     (let distance = get_distance self
      in case get_mean_speed self of
           Inl e \<Rightarrow> Inl e
         | Inr speed \<Rightarrow>
             (case get_spent_calories self of
                Inl e \<Rightarrow> Inl e
              | Inr calories \<Rightarrow>
                  Inr \<lparr>training_type = class_name self,
                       info_duration = duration self,
                       info_distance = distance,
                       info_speed = speed,
                       info_calories = calories\<rparr>))"

subsection \<open>\<open>read_package\<close> and \<open>main\<close>\<close>

text \<open>
  Calling a class with \<open>*data\<close>: \<open>__init__\<close> takes a fixed number of positional
  arguments, and any other number raises \<open>TypeError\<close>.
\<close>

fun Running_init :: "rat list \<Rightarrow> error + training" where
  "Running_init [a, d, w] = Inr (Running a d w)"
| "Running_init _ = Inl TypeError"

fun SportsWalking_init :: "rat list \<Rightarrow> error + training" where
  "SportsWalking_init [a, d, w, h] = Inr (SportsWalking a d w h)"
| "SportsWalking_init _ = Inl TypeError"

fun Swimming_init :: "rat list \<Rightarrow> error + training" where
  "Swimming_init [a, d, w, l, c] = Inr (Swimming a d w l c)"
| "Swimming_init _ = Inl TypeError"

text \<open>The dictionary \<open>activities\<close>, in insertion order (the order of \<open>keys()\<close>).\<close>

definition activities :: "(str \<times> (rat list \<Rightarrow> error + training)) list" where
  "activities =
     [(ascii ''SWM'', Swimming_init),
      (ascii ''RUN'', Running_init),
      (ascii ''WLK'', SportsWalking_init)]"

text \<open>\<open>sep.join(xs)\<close>\<close>

fun join :: "str \<Rightarrow> str list \<Rightarrow> str" where
  "join sep [] = []"
| "join sep [x] = x"
| "join sep (x # y # ys) = x @ sep @ join sep (y # ys)"

definition read_package :: "str \<Rightarrow> rat list \<Rightarrow> error + training" where
  "read_package workout_type data =
     (if workout_type \<notin> set (map fst activities)
      then Inl (ValueError
             (workout_type @ ascii '' is not a supported workout type ''
              @ ascii ''(try one of these: '' @ join (ascii '', '') (map fst activities)
              @ ascii '')''))
      else (case map_of activities workout_type of
              None \<Rightarrow> Inl KeyError
            | Some cls \<Rightarrow> cls data))"

text \<open>\<open>main\<close> prints one line; the model returns the text it prints.\<close>

definition main :: "training \<Rightarrow> error + str" where
  "main training =
     (case show_training_info training of
        Inl e \<Rightarrow> Inl e
      | Inr info \<Rightarrow> Inr (get_message info))"

subsection \<open>The methods in state-passing form\<close>

text \<open>
  The same methods once more, each returning its result together with the object as the
  method leaves it: an assignment to an attribute of \<open>self\<close> would show in the second
  component, and a method that calls another works on the object that the callee
  returns. In the source only \<open>__init__\<close> assigns to \<open>self\<close>.
\<close>

definition get_distance_call :: "training \<Rightarrow> rat \<times> training" where
  "get_distance_call self =
     (float_div (float_mul (action self) (LEN_STEP self)) M_IN_KM, self)"

definition Training_get_mean_speed_call :: "training \<Rightarrow> (error + rat) \<times> training" where
  "Training_get_mean_speed_call self =
     (let (distance, self) = get_distance_call self
      in (truediv distance (duration self), self))"

definition Swimming_get_mean_speed_call :: "training \<Rightarrow> (error + rat) \<times> training" where
  "Swimming_get_mean_speed_call self =
     (let distance_meters = float_mul (length_pool self) (count_pool self);
          distance_km = float_div distance_meters M_IN_KM;
          speed = truediv distance_km (duration self)
      in (speed, self))"

fun get_mean_speed_call :: "training \<Rightarrow> (error + rat) \<times> training" where
  "get_mean_speed_call (Swimming a d w l c) =
     Swimming_get_mean_speed_call (Swimming a d w l c)"
| "get_mean_speed_call self = Training_get_mean_speed_call self"

declare get_mean_speed_call.simps [simp del]

definition Training_get_spent_calories_call :: "training \<Rightarrow> (error + rat) \<times> training" where
  "Training_get_spent_calories_call self = (Inl NotImplementedError, self)"

definition Running_get_spent_calories_call :: "training \<Rightarrow> (error + rat) \<times> training" where
  "Running_get_spent_calories_call self =
     (let (r, self) = get_mean_speed_call self
      in case r of
           Inl e \<Rightarrow> (Inl e, self)
         | Inr mean_speed \<Rightarrow>
             (let pace = float_mul
                           (float_sub (float_mul MET_COEFF_RUN_1 mean_speed)
                              MET_COEFF_RUN_2)
                           (weight self);
                  pace_in_km = float_div pace M_IN_KM;
                  pace_in_min = float_mul (duration self) MIN_IN_HOUR;
                  calories = float_mul pace_in_km pace_in_min
              in (Inr calories, self)))"

definition SportsWalking_get_spent_calories_call ::
  "training \<Rightarrow> (error + rat) \<times> training" where
  "SportsWalking_get_spent_calories_call self =
     (let (r, self) = get_mean_speed_call self
      in case r of
           Inl e \<Rightarrow> (Inl e, self)
         | Inr mean_speed \<Rightarrow>
             (case floordiv (float_pow mean_speed 2) (height self) of
                Inl e \<Rightarrow> (Inl e, self)
              | Inr q \<Rightarrow>
                  (let pace = float_add
                                (float_mul MET_COEFF_WLK_1 (weight self))
                                (float_mul (float_mul q MET_COEFF_WLK_2) (weight self));
                       pace_in_min = float_mul (duration self) MIN_IN_HOUR;
                       calories = float_mul pace pace_in_min
                   in (Inr calories, self))))"

definition Swimming_get_spent_calories_call :: "training \<Rightarrow> (error + rat) \<times> training" where
  "Swimming_get_spent_calories_call self =
     (let (r, self) = get_mean_speed_call self
      in case r of
           Inl e \<Rightarrow> (Inl e, self)
         | Inr mean_speed \<Rightarrow>
             (let calories = float_mul
                               (float_mul (float_add mean_speed MET_COEFF_SWM_1)
                                  MET_COEFF_SWM_2)
                               (weight self)
              in (Inr calories, self)))"

fun get_spent_calories_call :: "training \<Rightarrow> (error + rat) \<times> training" where
  "get_spent_calories_call (Training a d w) =
     Training_get_spent_calories_call (Training a d w)"
| "get_spent_calories_call (Running a d w) =
     Running_get_spent_calories_call (Running a d w)"
| "get_spent_calories_call (SportsWalking a d w h) =
     SportsWalking_get_spent_calories_call (SportsWalking a d w h)"
| "get_spent_calories_call (Swimming a d w l c) =
     Swimming_get_spent_calories_call (Swimming a d w l c)"

declare get_spent_calories_call.simps [simp del]

definition show_training_info_call :: "training \<Rightarrow> (error + InfoMessage) \<times> training" where
  "show_training_info_call self =
     (let name = class_name self;
          hours = duration self;
          (distance, self) = get_distance_call self;
          (r, self) = get_mean_speed_call self
      in case r of
           Inl e \<Rightarrow> (Inl e, self)
         | Inr speed \<Rightarrow>
             (let (r, self) = get_spent_calories_call self
              in case r of
                   Inl e \<Rightarrow> (Inl e, self)
                 | Inr calories \<Rightarrow>
                     (Inr \<lparr>training_type = name,
                           info_duration = hours,
                           info_distance = distance,
                           info_speed = speed,
                           info_calories = calories\<rparr>, self)))"

subsection \<open>Notions used to state the properties\<close>

text \<open>The code points of the decimal digits, and the number that a digit string denotes.\<close>

definition is_digit :: "nat \<Rightarrow> bool" where
  "is_digit c = (48 \<le> c \<and> c \<le> 57)"

definition decimal_value :: "str \<Rightarrow> nat" where
  "decimal_value s = foldl (\<lambda>n c. 10 * n + (c - 48)) 0 s"

section \<open>Properties\<close>

lemmas constant_defs =
  M_IN_KM_def MIN_IN_HOUR_def MET_COEFF_RUN_1_def MET_COEFF_RUN_2_def
  MET_COEFF_WLK_1_def MET_COEFF_WLK_2_def MET_COEFF_SWM_1_def MET_COEFF_SWM_2_def

lemmas float_defs =
  float_add_def float_sub_def float_mul_def float_div_def float_pow_def

lemmas method_defs =
  get_distance_def Training_get_mean_speed_def Swimming_get_mean_speed_def
  Training_get_spent_calories_def Running_get_spent_calories_def
  SportsWalking_get_spent_calories_def Swimming_get_spent_calories_def
  get_mean_speed.simps get_spent_calories.simps truediv_def floordiv_def Let_def

subsection \<open>The rounding\<close>

text \<open>
  \<open>binary64 x\<close> is a multiple of the spacing \<open>2 ^ e\<close> at \<open>x\<close>, with a significand
  of at most 53 bits, and no further from \<open>x\<close> than half the spacing.
\<close>

lemma round_half_even_error: "\<bar>of_int (round_half_even y) - y\<bar> \<le> 1 / 2"
proof -
  have "of_int \<lfloor>y\<rfloor> \<le> y" "y < of_int \<lfloor>y\<rfloor> + 1" by linarith+
  then show ?thesis by (auto simp: round_half_even_def Let_def)
qed

lemma ilog2_bounds:
  assumes "0 < x"
  shows "2 powi ilog2 x \<le> x" and "x < 2 powi (ilog2 x + 1)"
proof -
  show "2 powi ilog2 x \<le> x"
  proof (cases "1 \<le> x")
    case True
    define n where "n = \<lfloor>x\<rfloor>"
    have n: "0 < n" using True by (simp add: n_def)
    then have b: "1 \<le> bitlen n" by (simp add: bitlen_alt_def)
    have "(2::int) ^ nat (bitlen n - 1) \<le> n" using bitlen_bounds [OF n] by simp
    then have "(of_int ((2::int) ^ nat (bitlen n - 1)) :: rat) \<le> of_int n"
      by (simp only: of_int_le_iff)
    also have "\<dots> \<le> x" by (simp add: n_def)
    finally show ?thesis using True b by (simp add: ilog2_def n_def power_int_def)
  next
    case False
    define m where "m = \<lceil>1 / x\<rceil> - 1"
    have y: "1 < 1 / x" using False assms by simp
    then have m: "0 < m" unfolding m_def by linarith
    then have b: "1 \<le> bitlen m" by (simp add: bitlen_alt_def)
    have "1 / x \<le> of_int (m + 1)" unfolding m_def by simp
    also have "m + 1 \<le> 2 ^ nat (bitlen m)" using bitlen_bounds [OF m] by simp
    then have "(of_int (m + 1) :: rat) \<le> of_int (2 ^ nat (bitlen m))"
      by (simp only: of_int_le_iff)
    finally have "1 / x \<le> 2 ^ nat (bitlen m)" by simp
    then have "1 / 2 ^ nat (bitlen m) \<le> x"
      using assms by (simp add: field_simps)
    then show ?thesis using False b
      by (simp add: ilog2_def m_def power_int_def field_simps)
  qed
  show "x < 2 powi (ilog2 x + 1)"
  proof (cases "1 \<le> x")
    case True
    define n where "n = \<lfloor>x\<rfloor>"
    have n: "0 < n" using True by (simp add: n_def)
    then have b: "1 \<le> bitlen n" by (simp add: bitlen_alt_def)
    have "x < of_int (n + 1)" unfolding n_def by linarith
    also have "n + 1 \<le> 2 ^ nat (bitlen n)" using bitlen_bounds [OF n] by simp
    then have "(of_int (n + 1) :: rat) \<le> of_int (2 ^ nat (bitlen n))"
      by (simp only: of_int_le_iff)
    finally have "x < 2 ^ nat (bitlen n)" by simp
    then show ?thesis using True b by (simp add: ilog2_def n_def power_int_def)
  next
    case False
    define m where "m = \<lceil>1 / x\<rceil> - 1"
    have y: "1 < 1 / x" using False assms by simp
    then have m: "0 < m" unfolding m_def by linarith
    then have b: "1 \<le> bitlen m" by (simp add: bitlen_alt_def)
    have "(2::int) ^ nat (bitlen m - 1) \<le> m" using bitlen_bounds [OF m] by simp
    then have "(of_int ((2::int) ^ nat (bitlen m - 1)) :: rat) \<le> of_int m"
      by (simp only: of_int_le_iff)
    also have "of_int m < 1 / x" unfolding m_def by linarith
    finally have "2 ^ nat (bitlen m - 1) < 1 / x" by simp
    then have "x < 1 / 2 ^ nat (bitlen m - 1)"
      using assms by (simp add: field_simps)
    moreover have "- bitlen m + 1 = - (bitlen m - 1)" by simp
    ultimately show ?thesis using False b
      by (simp add: ilog2_def m_def power_int_def field_simps nat_diff_distrib)
  qed
qed


lemma binary64_nearest:
  assumes "x \<noteq> 0"
  shows "\<exists>m. binary64 x = of_int m * 2 powi max (ilog2 \<bar>x\<bar> - 52) (- 1074) \<and>
             \<bar>m\<bar> \<le> 2 ^ 53 \<and>
             \<bar>binary64 x - x\<bar> \<le> 2 powi max (ilog2 \<bar>x\<bar> - 52) (- 1074) / 2"
proof -
  define e where "e = max (ilog2 \<bar>x\<bar> - 52) (- 1074)"
  define s :: rat where "s = 2 powi e"
  define m where "m = round_half_even (x / s)"
  have s: "0 < s" by (simp add: s_def)
  have eq: "binary64 x = of_int m * s"
    using assms by (simp add: binary64_def Let_def e_def s_def m_def)
  have r: "\<bar>of_int m - x / s\<bar> \<le> 1 / 2"
    unfolding m_def by (rule round_half_even_error)
  have "\<bar>of_int m * s - x\<bar> = \<bar>of_int m - x / s\<bar> * s"
    using s by (simp add: abs_mult_pos [symmetric] field_simps)
  also have "\<dots> \<le> 1 / 2 * s"
    using r s by (intro mult_right_mono) simp_all
  finally have err: "\<bar>binary64 x - x\<bar> \<le> s / 2" by (simp add: eq)
  have "\<bar>x\<bar> < 2 powi (ilog2 \<bar>x\<bar> + 1)"
    using assms by (intro ilog2_bounds) simp
  also have "(2::rat) powi (ilog2 \<bar>x\<bar> + 1) = 2 powi (ilog2 \<bar>x\<bar> - 52) * 2 ^ 53"
    by (simp add: power_int_add power_int_diff)
  also have "\<dots> \<le> s * 2 ^ 53"
    unfolding s_def e_def by (intro mult_right_mono power_int_increasing) simp_all
  finally have "\<bar>x / s\<bar> < 2 ^ 53"
    using s by (simp add: field_simps abs_mult_pos [symmetric])
  with r have "\<bar>(of_int m :: rat)\<bar> < 2 ^ 53 + 1" by linarith
  then have "(of_int \<bar>m\<bar> :: rat) < of_int (2 ^ 53 + 1)" by simp
  then have "\<bar>m\<bar> < 2 ^ 53 + 1" by (simp only: of_int_less_iff)
  then have "\<bar>m\<bar> \<le> 2 ^ 53" by simp
  with eq err show ?thesis unfolding s_def e_def by blast
qed

subsection \<open>The examples, evaluated\<close>

lemma run_example_values:
  "get_distance (Running 15000 1 75) = 9.75"
  "get_mean_speed (Running 15000 1 75) = Inr 9.75"
  "get_spent_calories (Running 15000 1 75) = Inr 699.75"
  by code_simp+

lemma swm_example_values:
  "get_distance (Swimming 720 1 80 25 40) = 8949553179510649 / 9007199254740992"
  "get_mean_speed (Swimming 720 1 80 25 40) = Inr 1"
  "get_spent_calories (Swimming 720 1 80 25 40) = Inr 336"
  by code_simp+


subsection \<open>The calorie and speed formulas\<close>

text \<open>
  C1. A \<open>Running\<close> with a positive duration has the mean speed
  \<open>action * 0.65 / 1000 / duration\<close>, and \<open>get_spent_calories\<close> returns
  \<open>((18 * mean_speed - 20) * weight / 1000) * (duration * 60)\<close>: no exception, and this
  value, each operation in binary64 as Python computes it.
\<close>

theorem running_calories:
  assumes "0 < d"
  shows "get_mean_speed (Running a d w) =
           Inr (binary64 (binary64 (binary64 (a * binary64 0.65) / 1000) / d)) \<and>
         get_spent_calories (Running a d w) =
           Inr (let mean_speed =
                      binary64 (binary64 (binary64 (a * binary64 0.65) / 1000) / d)
                in binary64
                     (binary64
                        (binary64 (binary64 (binary64 (18 * mean_speed) - 20) * w) / 1000)
                      * binary64 (d * 60)))"
  using assms by (simp add: method_defs constant_defs float_defs)

theorem running_calories_witness:
  "(0::rat) < 1 \<and>
   get_spent_calories (Running 15000 1 75) =
     Inr (binary64
            (binary64 (binary64 (binary64 (binary64 (18 * 9.75) - 20) * 75) / 1000)
             * binary64 (1 * 60))) \<and>
   get_mean_speed (Running 15000 1 75) = Inr 9.75 \<and>
   get_spent_calories (Running 15000 1 75) = Inr 699.75"
proof -
  have s: "binary64 (binary64 (binary64 (15000 * binary64 0.65) / 1000) / 1) = 9.75"
    by code_simp
  have h: "(0::rat) < 1" by simp
  have "get_spent_calories (Running 15000 1 75) =
     Inr (binary64
            (binary64 (binary64 (binary64 (binary64 (18 * 9.75) - 20) * 75) / 1000)
             * binary64 (1 * 60)))"
    using running_calories [OF h, of 15000 75, unfolded Let_def s] by simp
  with h run_example_values show ?thesis by blast
qed



text \<open>
  The rounding decides the floor. At 26000 steps, a duration of 1.2596516273248815 hours
  (the binary64 value written out below) and a height of 180, the squared speed is
  179.99999999999997 in binary64 and the quotient floors to 0, where the squared speed
  computed without rounding would be above 180 and floor to 1.
\<close>

lemma sports_walking_rounding_example:
  "get_mean_speed (SportsWalking 26000 (5672966599436975 / 4503599627370496) 75 180) =
     Inr (7552766182682363 / 562949953421312)"
  "binary64 ((7552766182682363 / 562949953421312) ^ 2) =
     6333186975989759 / 35184372088832"
  "\<lfloor>(6333186975989759 / 35184372088832) / 180 :: rat\<rfloor> = 0"
  "\<lfloor>(26000 * 0.65 / 1000 / (5672966599436975 / 4503599627370496)) ^ 2 / 180 :: rat\<rfloor> = 1"
  "get_spent_calories (SportsWalking 26000 (5672966599436975 / 4503599627370496) 75 180) =
     Inr (3490204060200483 / 17592186044416)"
  by code_simp+

text \<open>
  C3. A \<open>Swimming\<close> with a positive duration has the mean speed
  \<open>(length_pool * count_pool / 1000) / duration\<close>, each operation in binary64; two
  swimmings with the same pool length, lap count and duration have the same mean speed,
  whatever their action counts (and weights) are.
\<close>

theorem swimming_mean_speed:
  assumes "0 < d"
  shows "get_mean_speed (Swimming a d w l c) =
           Inr (binary64 (binary64 (binary64 (l * c) / 1000) / d)) \<and>
         get_mean_speed (Swimming a' d w' l c) = get_mean_speed (Swimming a d w l c)"
  using assms by (simp add: method_defs constant_defs float_defs)

theorem swimming_mean_speed_witness:
  "(0::rat) < 1 \<and>
   get_mean_speed (Swimming 720 1 80 25 40) =
     Inr (binary64 (binary64 (binary64 (25 * 40) / 1000) / 1)) \<and>
   get_mean_speed (Swimming 720 1 80 25 40) = Inr 1 \<and>
   get_mean_speed (Swimming 5 1 60 25 40) = get_mean_speed (Swimming 720 1 80 25 40)"
proof -
  have h: "(0::rat) < 1" by simp
  from swimming_mean_speed [OF h, of 720 80 25 40 5 60] h swm_example_values
  show ?thesis by blast
qed

subsection \<open>The abstract method\<close>

text \<open>
  C9. \<open>get_spent_calories\<close> on an object of the base class \<open>Training\<close> raises
  \<open>NotImplementedError\<close>, whatever the attributes are, and returns no value. On an object
  of each of the three subclasses it is the subclass's own method that runs: it never raises
  \<open>NotImplementedError\<close>.
\<close>

theorem base_calories_not_implemented:
  "get_spent_calories (Training a d w) = Inl NotImplementedError \<and>
   get_spent_calories (Running a d w) \<noteq> Inl NotImplementedError \<and>
   get_spent_calories (SportsWalking a d w h) \<noteq> Inl NotImplementedError \<and>
   get_spent_calories (Swimming a d w l c) \<noteq> Inl NotImplementedError"
  by (simp add: method_defs constant_defs)

subsection \<open>\<open>read_package\<close>\<close>

lemma ascii_keys:
  "ascii ''SWM'' = [83, 87, 77]" "ascii ''RUN'' = [82, 85, 78]" "ascii ''WLK'' = [87, 76, 75]"
  by (simp_all add: ascii_def)

lemma read_package_known:
  "read_package (ascii ''SWM'') data = Swimming_init data"
  "read_package (ascii ''RUN'') data = Running_init data"
  "read_package (ascii ''WLK'') data = SportsWalking_init data"
  by (simp_all add: read_package_def activities_def ascii_keys)

lemma read_package_unknown:
  assumes "workout_type \<notin> {ascii ''SWM'', ascii ''RUN'', ascii ''WLK''}"
  shows "read_package workout_type data =
    Inl (ValueError (workout_type @
      ascii '' is not a supported workout type (try one of these: SWM, RUN, WLK)''))"
  using assms by (simp add: read_package_def activities_def ascii_def)

text \<open>
  C7. For a workout type that is none of \<open>SWM\<close>, \<open>RUN\<close>, \<open>WLK\<close>, \<open>read_package\<close>
  raises \<open>ValueError\<close> with the message
  \<open><type> is not a supported workout type (try one of these: SWM, RUN, WLK)\<close> and
  constructs nothing. For each of the three codes it constructs the object of the matching
  class from the positional arguments.
\<close>

theorem read_package_dispatch:
  "(workout_type \<notin> {ascii ''SWM'', ascii ''RUN'', ascii ''WLK''} \<longrightarrow>
      read_package workout_type data =
        Inl (ValueError (workout_type @
          ascii '' is not a supported workout type (try one of these: SWM, RUN, WLK)''))) \<and>
   read_package (ascii ''SWM'') [a, d, w, l, c] = Inr (Swimming a d w l c) \<and>
   read_package (ascii ''RUN'') [a, d, w] = Inr (Running a d w) \<and>
   read_package (ascii ''WLK'') [a, d, w, h] = Inr (SportsWalking a d w h)"
  by (simp add: read_package_known read_package_unknown)

theorem read_package_dispatch_witness:
  "ascii ''BIKE'' \<notin> {ascii ''SWM'', ascii ''RUN'', ascii ''WLK''} \<and>
   read_package (ascii ''BIKE'') [9000, 1, 75, 180] =
     Inl (ValueError
       (ascii ''BIKE is not a supported workout type (try one of these: SWM, RUN, WLK)'')) \<and>
   read_package (ascii ''SWM'') [720, 1, 80, 25, 40] = Inr (Swimming 720 1 80 25 40) \<and>
   read_package (ascii ''RUN'') [15000, 1, 75] = Inr (Running 15000 1 75) \<and>
   read_package (ascii ''WLK'') [9000, 1, 75, 180] = Inr (SportsWalking 9000 1 75 180)"
proof -
  have n: "ascii ''BIKE'' \<notin> {ascii ''SWM'', ascii ''RUN'', ascii ''WLK''}"
    by (simp add: ascii_def)
  show ?thesis
    using n read_package_dispatch [of "ascii ''BIKE''" "[9000, 1, 75, 180]"]
      read_package_dispatch [of "ascii ''BIKE''" "[9000, 1, 75, 180]" 720 1 80 25 40]
      read_package_dispatch [of "ascii ''BIKE''" "[9000, 1, 75, 180]" 15000 1 75]
      read_package_dispatch [of "ascii ''BIKE''" "[9000, 1, 75, 180]" 9000 1 75 _ _ 180]
    by (simp add: ascii_def)
qed

subsection \<open>Degenerate inputs\<close>

lemma zero_duration_mean_speed:
  "duration t = 0 \<Longrightarrow> get_mean_speed t = Inl ZeroDivisionError"
  by (cases t) (simp_all add: method_defs)

lemma positive_duration_mean_speed:
  "0 < duration t \<Longrightarrow> \<not> isl (get_mean_speed t)"
  by (cases t) (simp_all add: method_defs)

text \<open>
  C10. Nothing validates a zero duration or a zero height: \<open>read_package\<close> constructs the
  object. The fault comes with the computation: \<open>get_mean_speed\<close> of any training with
  duration 0 raises \<open>ZeroDivisionError\<close>, and so does \<open>get_spent_calories\<close> of a
  \<open>Running\<close>, \<open>SportsWalking\<close> or \<open>Swimming\<close> with duration 0 and of a
  \<open>SportsWalking\<close> with height 0. Conversely, with a positive duration
  \<open>get_mean_speed\<close> returns a value, \<open>get_spent_calories\<close> returns a value for
  \<open>Running\<close> and \<open>Swimming\<close>, and for \<open>SportsWalking\<close> when the height is positive
  too; on the base class it raises, but not \<open>ZeroDivisionError\<close>.
\<close>

theorem degenerate_inputs:
  "read_package (ascii ''RUN'') [a, 0, w] = Inr (Running a 0 w) \<and>
   read_package (ascii ''WLK'') [a, 0, w, h] = Inr (SportsWalking a 0 w h) \<and>
   read_package (ascii ''WLK'') [a, d, w, 0] = Inr (SportsWalking a d w 0) \<and>
   read_package (ascii ''SWM'') [a, 0, w, l, c] = Inr (Swimming a 0 w l c) \<and>
   (duration t = 0 \<longrightarrow> get_mean_speed t = Inl ZeroDivisionError) \<and>
   get_spent_calories (Running a 0 w) = Inl ZeroDivisionError \<and>
   get_spent_calories (SportsWalking a 0 w h) = Inl ZeroDivisionError \<and>
   get_spent_calories (Swimming a 0 w l c) = Inl ZeroDivisionError \<and>
   get_spent_calories (SportsWalking a d w 0) = Inl ZeroDivisionError \<and>
   (0 < duration t \<longrightarrow> \<not> isl (get_mean_speed t)) \<and>
   (0 < d \<longrightarrow>
      get_spent_calories (Training a d w) \<noteq> Inl ZeroDivisionError \<and>
      \<not> isl (get_spent_calories (Running a d w)) \<and>
      \<not> isl (get_spent_calories (Swimming a d w l c)) \<and>
      (0 < h \<longrightarrow> \<not> isl (get_spent_calories (SportsWalking a d w h))))"
  by (simp add: read_package_known zero_duration_mean_speed positive_duration_mean_speed)
     (simp add: method_defs)

theorem degenerate_inputs_witness:
  "duration (Swimming 720 0 80 25 40) = 0 \<and>
   get_mean_speed (Swimming 720 0 80 25 40) = Inl ZeroDivisionError \<and>
   get_spent_calories (SportsWalking 9000 1 75 0) = Inl ZeroDivisionError \<and>
   0 < duration (SportsWalking 9000 1 75 180) \<and> (0::rat) < 1 \<and> (0::rat) < 180 \<and>
   \<not> isl (get_mean_speed (SportsWalking 9000 1 75 180)) \<and>
   \<not> isl (get_spent_calories (SportsWalking 9000 1 75 180)) \<and>
   \<not> isl (get_spent_calories (Running 9000 1 75))"
  using degenerate_inputs [of 9000 75 180 1 25 40 "Swimming 720 0 80 25 40"]
    degenerate_inputs [of 9000 75 180 1 25 40 "SportsWalking 9000 1 75 180"]
  by simp

subsection \<open>\<open>show_training_info\<close>\<close>

lemma show_training_info_run_example:
  "show_training_info (Running 15000 1 75) =
     Inr \<lparr>training_type = ascii ''Running'', info_duration = 1, info_distance = 9.75,
          info_speed = 9.75, info_calories = 699.75\<rparr>"
  by (simp add: show_training_info_def run_example_values)

lemma show_training_info_swm_example:
  "show_training_info (Swimming 720 1 80 25 40) =
     Inr \<lparr>training_type = ascii ''Swimming'', info_duration = 1,
          info_distance = 8949553179510649 / 9007199254740992,
          info_speed = 1, info_calories = 336\<rparr>"
  by (simp add: show_training_info_def swm_example_values)

lemma get_distance_call: "get_distance_call t = (get_distance t, t)"
  by (simp add: get_distance_call_def get_distance_def)

lemma get_mean_speed_call: "get_mean_speed_call t = (get_mean_speed t, t)"
  by (cases t)
     (simp_all add: get_mean_speed_call.simps get_mean_speed.simps get_distance_call
        Training_get_mean_speed_call_def Training_get_mean_speed_def
        Swimming_get_mean_speed_call_def Swimming_get_mean_speed_def Let_def)

lemma get_spent_calories_call: "get_spent_calories_call t = (get_spent_calories t, t)"
  by (cases t)
     (simp_all add: get_spent_calories_call.simps get_spent_calories.simps
        get_mean_speed_call
        Training_get_spent_calories_call_def Training_get_spent_calories_def
        Running_get_spent_calories_call_def Running_get_spent_calories_def
        SportsWalking_get_spent_calories_call_def SportsWalking_get_spent_calories_def
        Swimming_get_spent_calories_call_def Swimming_get_spent_calories_def
        Let_def split: sum.splits)

lemma show_training_info_call: "show_training_info_call t = (show_training_info t, t)"
  by (simp add: show_training_info_call_def show_training_info_def get_distance_call
      get_mean_speed_call get_spent_calories_call Let_def split: sum.splits)

text \<open>
  C8. Two calls of \<open>show_training_info\<close> in a row, the second on the object that the
  first leaves, return the same outcome (the same message, or the same exception), and
  the object after each call is the object before it. The same holds of the three
  methods that it calls: none of them changes the object, so each call computes the
  label, duration, distance, speed and calories from the same attributes.
\<close>

theorem show_training_info_twice:
  "(case show_training_info_call t of
      (r1, t1) \<Rightarrow>
        (case show_training_info_call t1 of
           (r2, t2) \<Rightarrow> r1 = r2 \<and> t1 = t \<and> t2 = t)) \<and>
   snd (get_distance_call t) = t \<and>
   snd (get_mean_speed_call t) = t \<and>
   snd (get_spent_calories_call t) = t \<and>
   fst (show_training_info_call t) = show_training_info t"
  by (simp add: show_training_info_call get_distance_call get_mean_speed_call
      get_spent_calories_call)

subsection \<open>The rendered message\<close>

lemma str_nat_digits: "list_all is_digit (str_nat n)"
proof (induction n rule: str_nat.induct)
  case (1 n)
  show ?case
  proof (cases "n < 10")
    case True
    then show ?thesis by (simp add: str_nat.simps [of n] is_digit_def)
  next
    case False
    have "n mod 10 < 10" by simp
    then have "is_digit (48 + n mod 10)" unfolding is_digit_def by linarith
    with False 1 show ?thesis by (simp add: str_nat.simps [of n])
  qed
qed

lemma str_nat_nonempty: "str_nat n \<noteq> []"
  by (simp add: str_nat.simps [of n])

lemma length_str_nat: "0 < k \<Longrightarrow> n < 10 ^ k \<Longrightarrow> length (str_nat n) \<le> k"
proof (induction n arbitrary: k rule: str_nat.induct)
  case (1 n)
  show ?case
  proof (cases "n < 10")
    case True
    with 1 show ?thesis by (simp add: str_nat.simps [of n] Suc_leI)
  next
    case False
    then obtain j where k: "k = Suc j" using 1(2) by (cases k) auto
    have "0 < j" using False 1(3) k by (cases j) auto
    moreover have "n div 10 < 10 ^ j"
      using 1(3) k by (simp add: less_mult_imp_div_less mult.commute)
    ultimately have "length (str_nat (n div 10)) \<le> j" using 1(1) False by simp
    with False k show ?thesis by (simp add: str_nat.simps [of n])
  qed
qed

lemma decimal_value_snoc: "decimal_value (xs @ [c]) = 10 * decimal_value xs + (c - 48)"
  by (simp add: decimal_value_def)

lemma decimal_value_append:
  "decimal_value (xs @ ys) = decimal_value xs * 10 ^ length ys + decimal_value ys"
proof (induction ys rule: rev_induct)
  case Nil
  show ?case by (simp add: decimal_value_def)
next
  case (snoc c ys)
  have "decimal_value (xs @ ys @ [c]) = 10 * decimal_value (xs @ ys) + (c - 48)"
    using decimal_value_snoc [of "xs @ ys" c] by simp
  then show ?case by (simp add: snoc decimal_value_snoc algebra_simps)
qed

lemma decimal_value_zeros: "decimal_value (replicate k 48) = 0"
  by (induction k) (simp_all add: decimal_value_def)

lemma decimal_value_str_nat: "decimal_value (str_nat n) = n"
proof (induction n rule: str_nat.induct)
  case (1 n)
  show ?case
  proof (cases "n < 10")
    case True
    then show ?thesis by (simp add: str_nat.simps [of n] decimal_value_def)
  next
    case False
    with 1 show ?thesis by (simp add: str_nat.simps [of n] decimal_value_snoc)
  qed
qed

lemma round_half_even_nonneg: "0 \<le> y \<Longrightarrow> 0 \<le> round_half_even y"
proof -
  assume "0 \<le> y"
  then have "0 \<le> \<lfloor>y\<rfloor>" by simp
  then show ?thesis by (auto simp: round_half_even_def Let_def)
qed

lemma round_half_even_near:
  assumes "of_int n - 1 / 2 < x" "x < of_int n + 1 / 2"
  shows "round_half_even x = n"
proof -
  have "\<lfloor>x\<rfloor> = n \<or> \<lfloor>x\<rfloor> = n - 1" using assms by linarith
  then show ?thesis
  proof
    assume "\<lfloor>x\<rfloor> = n"
    then show ?thesis using assms by (simp add: round_half_even_def Let_def)
  next
    assume "\<lfloor>x\<rfloor> = n - 1"
    then show ?thesis using assms by (simp add: round_half_even_def Let_def)
  qed
qed

lemma format_3f_shape:
  "\<exists>sign whole frac.
     format_3f x = sign @ whole @ [46] @ frac \<and>
     sign = (if x < 0 then [45] else []) \<and>
     whole \<noteq> [] \<and> list_all is_digit whole \<and>
     length frac = 3 \<and> list_all is_digit frac \<and>
     \<bar>of_nat (decimal_value (whole @ frac)) / 1000 - \<bar>x\<bar>\<bar> \<le> 1 / 2000"
proof -
  define n where "n = nat (round_half_even (\<bar>x\<bar> * 1000))"
  define whole where "whole = str_nat (n div 1000)"
  define digits where "digits = str_nat (n mod 1000)"
  define frac where "frac = replicate (3 - length digits) 48 @ digits"
  have len: "length digits \<le> 3"
    unfolding digits_def by (rule length_str_nat) simp_all
  have eq: "format_3f x = (if x < 0 then [45] else []) @ whole @ [46] @ frac"
    by (simp add: format_3f_def Let_def n_def whole_def digits_def frac_def)
  have w1: "whole \<noteq> []" by (simp add: whole_def str_nat_nonempty)
  have w2: "list_all is_digit whole" by (simp add: whole_def str_nat_digits)
  have f1: "length frac = 3" using len by (simp add: frac_def)
  have "is_digit 48" by (simp add: is_digit_def)
  then have f2: "list_all is_digit frac"
    using str_nat_digits [of "n mod 1000"]
    by (auto simp: frac_def digits_def list_all_iff)
  have "decimal_value frac = n mod 1000"
    by (simp add: frac_def decimal_value_append decimal_value_zeros digits_def
        decimal_value_str_nat)
  then have v: "decimal_value (whole @ frac) = n"
    by (simp add: decimal_value_append f1 whole_def decimal_value_str_nat)
  have "0 \<le> round_half_even (\<bar>x\<bar> * 1000)"
    by (rule round_half_even_nonneg) simp
  then have "(of_nat n :: rat) = of_int (round_half_even (\<bar>x\<bar> * 1000))"
    by (simp add: n_def)
  then have "\<bar>(of_nat n :: rat) - \<bar>x\<bar> * 1000\<bar> \<le> 1 / 2"
    using round_half_even_error [of "\<bar>x\<bar> * 1000"] by simp
  then have e: "\<bar>(of_nat n :: rat) / 1000 - \<bar>x\<bar>\<bar> \<le> 1 / 2000"
    by linarith
  show ?thesis using eq w1 w2 f1 f2 e v by auto
qed

lemma format_3f_chars: "set (format_3f x) \<subseteq> {45, 46} \<union> Collect is_digit"
proof -
  obtain sign whole frac where
    "format_3f x = sign @ whole @ [46] @ frac"
    "sign = (if x < 0 then [45] else [])"
    "list_all is_digit whole" "list_all is_digit frac"
    using format_3f_shape [of x] by blast
  then show ?thesis by (auto simp: list_all_iff)
qed

lemma newline_not_in_format_3f: "10 \<notin> set (format_3f x)"
  using format_3f_chars [of x] by (auto simp: is_digit_def)

lemma get_message_eq:
  "get_message m =
     [1058, 1080, 1087, 32, 1090, 1088, 1077, 1085, 1080, 1088, 1086, 1074, 1082, 1080,
      58, 32]
     @ training_type m
     @ [59, 32, 1044, 1083, 1080, 1090, 1077, 1083, 1100, 1085, 1086, 1089, 1090, 1100,
        58, 32]
     @ format_3f (info_duration m)
     @ [32, 1095, 46, 59, 32, 1044, 1080, 1089, 1090, 1072, 1085, 1094, 1080, 1103, 58,
        32]
     @ format_3f (info_distance m)
     @ [32, 1082, 1084, 59, 32, 1057, 1088, 46, 32, 1089, 1082, 1086, 1088, 1086, 1089,
        1090, 1100, 58, 32]
     @ format_3f (info_speed m)
     @ [32, 1082, 1084, 47, 1095, 59, 32, 1055, 1086, 1090, 1088, 1072, 1095, 1077, 1085,
        1086, 32, 1082, 1082, 1072, 1083, 58, 32]
     @ format_3f (info_calories m)
     @ [46]"
  by (simp add: get_message_def MESSAGE_def)

text \<open>
  C6. The message is one line: the fixed text with, in this order, the training type as it
  is and the duration, distance, speed and calories, each formatted with \<open>.3f\<close>. Such a
  number is an optional minus sign, at least one digit, a point and exactly three digits,
  and the decimal it spells is within 0.0005 of the absolute value of the field. The
  message contains a line break only if the training type does.
\<close>

theorem get_message_layout:
  "get_message m =
     [1058, 1080, 1087, 32, 1090, 1088, 1077, 1085, 1080, 1088, 1086, 1074, 1082, 1080,
      58, 32]
     @ training_type m
     @ [59, 32, 1044, 1083, 1080, 1090, 1077, 1083, 1100, 1085, 1086, 1089, 1090, 1100,
        58, 32]
     @ format_3f (info_duration m)
     @ [32, 1095, 46, 59, 32, 1044, 1080, 1089, 1090, 1072, 1085, 1094, 1080, 1103, 58,
        32]
     @ format_3f (info_distance m)
     @ [32, 1082, 1084, 59, 32, 1057, 1088, 46, 32, 1089, 1082, 1086, 1088, 1086, 1089,
        1090, 1100, 58, 32]
     @ format_3f (info_speed m)
     @ [32, 1082, 1084, 47, 1095, 59, 32, 1055, 1086, 1090, 1088, 1072, 1095, 1077, 1085,
        1086, 32, 1082, 1082, 1072, 1083, 58, 32]
     @ format_3f (info_calories m)
     @ [46] \<and>
   (\<exists>sign whole frac.
      format_3f x = sign @ whole @ [46] @ frac \<and>
      sign = (if x < 0 then [45] else []) \<and>
      whole \<noteq> [] \<and> list_all is_digit whole \<and>
      length frac = 3 \<and> list_all is_digit frac \<and>
      \<bar>of_nat (decimal_value (whole @ frac)) / 1000 - \<bar>x\<bar>\<bar> \<le> 1 / 2000) \<and>
   ((10 \<in> set (get_message m)) = (10 \<in> set (training_type m)))"
proof (intro conjI)
  show "get_message m =
     [1058, 1080, 1087, 32, 1090, 1088, 1077, 1085, 1080, 1088, 1086, 1074, 1082, 1080,
      58, 32]
     @ training_type m
     @ [59, 32, 1044, 1083, 1080, 1090, 1077, 1083, 1100, 1085, 1086, 1089, 1090, 1100,
        58, 32]
     @ format_3f (info_duration m)
     @ [32, 1095, 46, 59, 32, 1044, 1080, 1089, 1090, 1072, 1085, 1094, 1080, 1103, 58,
        32]
     @ format_3f (info_distance m)
     @ [32, 1082, 1084, 59, 32, 1057, 1088, 46, 32, 1089, 1082, 1086, 1088, 1086, 1089,
        1090, 1100, 58, 32]
     @ format_3f (info_speed m)
     @ [32, 1082, 1084, 47, 1095, 59, 32, 1055, 1086, 1090, 1088, 1072, 1095, 1077, 1085,
        1086, 32, 1082, 1082, 1072, 1083, 58, 32]
     @ format_3f (info_calories m)
     @ [46]"
    by (rule get_message_eq)
  show "\<exists>sign whole frac.
      format_3f x = sign @ whole @ [46] @ frac \<and>
      sign = (if x < 0 then [45] else []) \<and>
      whole \<noteq> [] \<and> list_all is_digit whole \<and>
      length frac = 3 \<and> list_all is_digit frac \<and>
      \<bar>of_nat (decimal_value (whole @ frac)) / 1000 - \<bar>x\<bar>\<bar> \<le> 1 / 2000"
    by (rule format_3f_shape)
  show "(10 \<in> set (get_message m)) = (10 \<in> set (training_type m))"
    by (simp add: get_message_eq newline_not_in_format_3f)
qed

subsection \<open>The examples of the module\<close>

lemma format_3f_near:
  assumes "0 \<le> x" "of_nat n - 1 / 2 < x * 1000" "x * 1000 < of_nat n + 1 / 2"
  shows "format_3f x =
    str_nat (n div 1000) @ [46]
    @ replicate (3 - length (str_nat (n mod 1000))) 48 @ str_nat (n mod 1000)"
proof -
  have "round_half_even (\<bar>x\<bar> * 1000) = int n"
    using assms by (intro round_half_even_near) simp_all
  with assms(1) show ?thesis by (simp add: format_3f_def Let_def)
qed

lemma format_3f_examples:
  "format_3f 1 = ascii ''1.000''"
  "format_3f (39 / 4) = ascii ''9.750''"
  "format_3f (2799 / 4) = ascii ''699.750''"
  "format_3f (8949553179510649 / 9007199254740992) = ascii ''0.994''"
  "format_3f 336 = ascii ''336.000''"
proof -
  show "format_3f 1 = ascii ''1.000''"
    by (simp add: format_3f_near [of _ 1000] str_nat.simps ascii_def numeral_3_eq_3)
  show "format_3f (39 / 4) = ascii ''9.750''"
    by (simp add: format_3f_near [of _ 9750] str_nat.simps ascii_def)
  show "format_3f (2799 / 4) = ascii ''699.750''"
    by (simp add: format_3f_near [of _ 699750] str_nat.simps ascii_def)
  show "format_3f (8949553179510649 / 9007199254740992) = ascii ''0.994''"
    by (simp add: format_3f_near [of _ 994] str_nat.simps ascii_def)
  show "format_3f 336 = ascii ''336.000''"
    by (simp add: format_3f_near [of _ 336000] str_nat.simps ascii_def numeral_3_eq_3)
qed

lemma main_run_example:
  "main (Running 15000 1 75) =
     Inr ([1058, 1080, 1087, 32, 1090, 1088, 1077, 1085, 1080, 1088, 1086, 1074, 1082, 1080,
        58, 32]
       @ ascii ''Running''
       @ [59, 32, 1044, 1083, 1080, 1090, 1077, 1083, 1100, 1085, 1086, 1089, 1090, 1100,
          58, 32]
       @ ascii ''1.000''
       @ [32, 1095, 46, 59, 32, 1044, 1080, 1089, 1090, 1072, 1085, 1094, 1080, 1103, 58,
          32]
       @ ascii ''9.750''
       @ [32, 1082, 1084, 59, 32, 1057, 1088, 46, 32, 1089, 1082, 1086, 1088, 1086, 1089,
          1090, 1100, 58, 32]
       @ ascii ''9.750''
       @ [32, 1082, 1084, 47, 1095, 59, 32, 1055, 1086, 1090, 1088, 1072, 1095, 1077, 1085,
          1086, 32, 1082, 1082, 1072, 1083, 58, 32]
       @ ascii ''699.750''
       @ [46])"
  by (simp add: main_def show_training_info_run_example get_message_eq format_3f_examples)

text \<open>
  C4, as the specification states it: the line printed for \<open>RUN\<close> with
  \<open>[15000, 1, 75]\<close> would end in \<open>581.250\<close>. It does not.
\<close>

theorem run_example_counterexample:
  "(case read_package (ascii ''RUN'') [15000, 1, 75] of
      Inl e \<Rightarrow> Inl e
    | Inr training \<Rightarrow> main training) \<noteq>
     Inr ([1058, 1080, 1087, 32, 1090, 1088, 1077, 1085, 1080, 1088, 1086, 1074, 1082, 1080,
        58, 32]
       @ ascii ''Running''
       @ [59, 32, 1044, 1083, 1080, 1090, 1077, 1083, 1100, 1085, 1086, 1089, 1090, 1100,
          58, 32]
       @ ascii ''1.000''
       @ [32, 1095, 46, 59, 32, 1044, 1080, 1089, 1090, 1072, 1085, 1094, 1080, 1103, 58,
          32]
       @ ascii ''9.750''
       @ [32, 1082, 1084, 59, 32, 1057, 1088, 46, 32, 1089, 1082, 1086, 1088, 1086, 1089,
          1090, 1100, 58, 32]
       @ ascii ''9.750''
       @ [32, 1082, 1084, 47, 1095, 59, 32, 1055, 1086, 1090, 1088, 1072, 1095, 1077, 1085,
          1086, 32, 1082, 1082, 1072, 1083, 58, 32]
       @ ascii ''581.250''
       @ [46])"
  by (simp add: read_package_known main_run_example) (simp add: ascii_def)

text \<open>
  C4, amended. For \<open>RUN\<close> with \<open>[15000, 1, 75]\<close> the distance is 9.75 km, the mean speed
  9.75 km/h and the calories \<open>((18 * 9.75 - 20) * 75 / 1000) * 60 = 699.75\<close>; the line
  printed is the one of the specification with \<open>699.750\<close> for the calories.
\<close>

theorem run_example:
  "read_package (ascii ''RUN'') [15000, 1, 75] = Inr (Running 15000 1 75) \<and>
   show_training_info (Running 15000 1 75) =
     Inr \<lparr>training_type = ascii ''Running'', info_duration = 1, info_distance = 9.75,
          info_speed = 9.75, info_calories = 699.75\<rparr> \<and>
   (case read_package (ascii ''RUN'') [15000, 1, 75] of
      Inl e \<Rightarrow> Inl e
    | Inr training \<Rightarrow> main training) =
     Inr ([1058, 1080, 1087, 32, 1090, 1088, 1077, 1085, 1080, 1088, 1086, 1074, 1082, 1080,
        58, 32]
       @ ascii ''Running''
       @ [59, 32, 1044, 1083, 1080, 1090, 1077, 1083, 1100, 1085, 1086, 1089, 1090, 1100,
          58, 32]
       @ ascii ''1.000''
       @ [32, 1095, 46, 59, 32, 1044, 1080, 1089, 1090, 1072, 1085, 1094, 1080, 1103, 58,
          32]
       @ ascii ''9.750''
       @ [32, 1082, 1084, 59, 32, 1057, 1088, 46, 32, 1089, 1082, 1086, 1088, 1086, 1089,
          1090, 1100, 58, 32]
       @ ascii ''9.750''
       @ [32, 1082, 1084, 47, 1095, 59, 32, 1055, 1086, 1090, 1088, 1072, 1095, 1077, 1085,
          1086, 32, 1082, 1082, 1072, 1083, 58, 32]
       @ ascii ''699.750''
       @ [46])"
  by (simp add: read_package_known main_run_example show_training_info_run_example)

text \<open>
  C5, as the specification states it: for \<open>SWM\<close> with \<open>[720, 1, 80, 25, 40]\<close> the
  message would show the distance 0.468, the speed 1.000, the calories 336.000 and the
  duration 1.000. The distance is another one.
\<close>

theorem swm_example_counterexample:
  "\<not> (case (case read_package (ascii ''SWM'') [720, 1, 80, 25, 40] of
              Inl e \<Rightarrow> Inl e
            | Inr training \<Rightarrow> show_training_info training) of
         Inl e \<Rightarrow> False
       | Inr info \<Rightarrow>
           format_3f (info_distance info) = ascii ''0.468'' \<and>
           format_3f (info_speed info) = ascii ''1.000'' \<and>
           format_3f (info_calories info) = ascii ''336.000'' \<and>
           format_3f (info_duration info) = ascii ''1.000'')"
  by (simp add: read_package_known show_training_info_swm_example format_3f_examples)
     (simp add: ascii_def)

text \<open>
  C5, amended. \<open>Swimming\<close> overrides \<open>LEN_STEP\<close> with 1.38, so the distance is
  \<open>720 * 1.38 / 1000\<close> km, in binary64 0.9935999999999999, shown as 0.994; the speed
  is 1.000 km/h, the calories 336.000 and the duration 1.000 h.
\<close>

theorem swm_example:
  "read_package (ascii ''SWM'') [720, 1, 80, 25, 40] = Inr (Swimming 720 1 80 25 40) \<and>
   show_training_info (Swimming 720 1 80 25 40) =
     Inr \<lparr>training_type = ascii ''Swimming'', info_duration = 1,
          info_distance = 8949553179510649 / 9007199254740992,
          info_speed = 1, info_calories = 336\<rparr> \<and>
   (case (case read_package (ascii ''SWM'') [720, 1, 80, 25, 40] of
            Inl e \<Rightarrow> Inl e
          | Inr training \<Rightarrow> show_training_info training) of
       Inl e \<Rightarrow> False
     | Inr info \<Rightarrow>
         format_3f (info_distance info) = ascii ''0.994'' \<and>
         format_3f (info_speed info) = ascii ''1.000'' \<and>
         format_3f (info_calories info) = ascii ''336.000'' \<and>
         format_3f (info_duration info) = ascii ''1.000'')"
  by (simp add: read_package_known show_training_info_swm_example format_3f_examples)

end
